theory Spec2Isabelle
  imports Main "HOL-Library.Sublist"
begin

section \<open>Text: Python strings and the string methods the generator calls\<close>

text \<open>
  A Python \<open>str\<close> is a sequence of code points. The model is \<open>string\<close>, a list of
  8-bit characters, each read as the code point of the same number (U+0000 to U+00FF):
  every literal of the program (the accented letters of the description, the copyright
  sign) lies in that range. Code points above U+00FF are outside the model.
  Python integers are unbounded and are modelled by \<open>int\<close>; the interpreter's optional cap
  on the number of digits \<open>int()\<close> converts (\<open>sys.set_int_max_str_digits\<close>) is a run-time
  setting, not part of the program, and is not modelled.
\<close>

text \<open>\<open>str.isspace\<close> on one code point below 256: TAB, LF, VT, FF, CR, the four
  separators FS GS RS US, the space, NEL and the no-break space.\<close>

definition isspace :: "char \<Rightarrow> bool" where
  "isspace c = (c \<in> set [CHR 0x09, CHR 0x0A, CHR 0x0B, CHR 0x0C, CHR 0x0D,
                           CHR 0x1C, CHR 0x1D, CHR 0x1E, CHR 0x1F, CHR 0x20,
                           CHR 0x85, CHR 0xA0])"

text \<open>The decimal digits below 256 (what \<open>\d\<close> and \<open>int()\<close> accept there).\<close>

definition isdigit :: "char \<Rightarrow> bool" where
  "isdigit c = (c \<in> set ''0123456789'')"

text \<open>\<open>str.strip()\<close> with no argument: whitespace removed at both ends.\<close>

definition py_strip :: "string \<Rightarrow> string" where
  "py_strip s = rev (dropWhile isspace (rev (dropWhile isspace s)))"

text \<open>\<open>str.lower()\<close> below 256: A to Z and the accented capitals U+00C0 to U+00DE
  (the multiplication sign U+00D7 apart) move up by 32.\<close>

definition lower_char :: "char \<Rightarrow> char" where
  "lower_char c =
     (let n = (of_char c :: nat)
      in if (65 \<le> n \<and> n \<le> 90) \<or> (192 \<le> n \<and> n \<le> 222 \<and> n \<noteq> 215)
         then char_of (n + 32) else c)"

definition py_lower :: "string \<Rightarrow> string" where
  "py_lower s = map lower_char s"

text \<open>\<open>str.split()\<close> with no argument: the maximal runs of non-whitespace, in order.
  \<open>cur\<close> is the token being read, reversed.\<close>

fun split_ws :: "string \<Rightarrow> string \<Rightarrow> string list" where
  "split_ws cur [] = (if cur = [] then [] else [rev cur])"
| "split_ws cur (c # cs) =
     (if isspace c then (if cur = [] then split_ws [] cs else rev cur # split_ws [] cs)
      else split_ws (c # cur) cs)"

definition py_split :: "string \<Rightarrow> string list" where
  "py_split s = split_ws [] s"

text \<open>\<open>s.replace(old, new)\<close>: the occurrences of \<open>old\<close> are replaced from the left,
  without overlap; an empty \<open>old\<close> matches before every character and at the end.\<close>

function py_replace :: "string \<Rightarrow> string \<Rightarrow> string \<Rightarrow> string" where
  "py_replace old new [] = (if old = [] then new else [])"
| "py_replace old new (c # cs) =
     (if old = [] then new @ c # py_replace old new cs
      else if prefix old (c # cs) then new @ py_replace old new (drop (length old) (c # cs))
      else c # py_replace old new cs)"
  by pat_completeness auto
termination
  by (relation "measure (\<lambda>(old, new, s). length s)") (auto simp: Suc_le_eq)

text \<open>\<open>'\n'.join(lines)\<close>.\<close>

fun join_nl :: "string list \<Rightarrow> string" where
  "join_nl [] = []"
| "join_nl [l] = l"
| "join_nl (l # m # ls) = l @ CHR 0x0A # join_nl (m # ls)"

section \<open>\<open>xml_escape\<close>\<close>

definition xml_escape :: "string \<Rightarrow> string" where
  "xml_escape text =
     py_replace [CHR 0x27] ''&apos;''
       (py_replace [CHR 0x22] ''&quot;''
         (py_replace ''>'' ''&gt;''
           (py_replace ''<'' ''&lt;''
             (py_replace ''&'' ''&amp;'' text))))"

text \<open>The escaping the specification asks for, one character at a time.\<close>

definition escape_char_spec :: "char \<Rightarrow> string" where
  "escape_char_spec c =
     (if c = CHR ''&'' then ''&amp;''
      else if c = CHR ''<'' then ''&lt;''
      else if c = CHR ''>'' then ''&gt;''
      else if c = CHR 0x22 then ''&quot;''
      else if c = CHR 0x27 then ''&apos;''
      else [c])"

section \<open>Integers as text\<close>

text \<open>\<open>str(n)\<close> for a natural number: its decimal digits, most significant first.\<close>

definition digit_char :: "nat \<Rightarrow> char" where
  "digit_char d = ''0123456789'' ! d"

fun digits10 :: "nat \<Rightarrow> string" where
  "digits10 n = (if n < 10 then [digit_char n] else digits10 (n div 10) @ [digit_char (n mod 10)])"

declare digits10.simps [simp del]

definition py_str_int :: "int \<Rightarrow> string" where
  "py_str_int i = (if i < 0 then CHR ''-'' # digits10 (nat (- i)) else digits10 (nat i))"

text \<open>The format specification \<open>0wd\<close> (\<open>{h:02d}\<close> is \<open>fmt_0d 2 h\<close>): zeros between the
  sign and the digits up to the width \<open>w\<close>; a longer number is not cut.\<close>

definition fmt_0d :: "nat \<Rightarrow> int \<Rightarrow> string" where
  "fmt_0d w i =
     (if i < 0
      then CHR ''-'' # replicate (w - 1 - length (digits10 (nat (- i)))) CHR ''0'' @ digits10 (nat (- i))
      else replicate (w - length (digits10 (nat i))) CHR ''0'' @ digits10 (nat i))"

text \<open>The value of a string of decimal digits (what \<open>int()\<close> computes on one).\<close>

definition digit_val :: "char \<Rightarrow> nat" where
  "digit_val c = of_char c - 48"

definition dec_value :: "string \<Rightarrow> nat" where
  "dec_value ds = foldl (\<lambda>a c. 10 * a + digit_val c) 0 ds"

section \<open>\<open>datetime\<close>\<close>

record datetime =
  year :: int
  month :: int
  day :: int
  hour :: int
  minute :: int
  second :: int
  microsecond :: int

datatype py_error = ValueError | OverflowError

definition is_leap :: "int \<Rightarrow> bool" where
  "is_leap y = (y mod 4 = 0 \<and> (y mod 100 \<noteq> 0 \<or> y mod 400 = 0))"

definition days_in_month :: "int \<Rightarrow> int \<Rightarrow> int" where
  "days_in_month y m =
     (if m = 2 \<and> is_leap y then 29
      else [31, 28, 31, 30, 31, 30, 31, 31, 30, 31, 30, 31] ! nat (m - 1))"

definition days_before_year :: "int \<Rightarrow> int" where
  "days_before_year y = (y - 1) * 365 + (y - 1) div 4 - (y - 1) div 100 + (y - 1) div 400"

definition days_before_month :: "int \<Rightarrow> int \<Rightarrow> int" where
  "days_before_month y m =
     [0, 31, 59, 90, 120, 151, 181, 212, 243, 273, 304, 334] ! nat (m - 1)
     + (if m > 2 \<and> is_leap y then 1 else 0)"

definition toordinal :: "datetime \<Rightarrow> int" where
  "toordinal dt = days_before_year (year dt) + days_before_month (year dt) (month dt) + day dt"

definition weekday :: "datetime \<Rightarrow> int" where
  "weekday dt = (toordinal dt + 6) mod 7"

definition valid_date :: "int \<Rightarrow> int \<Rightarrow> int \<Rightarrow> bool" where
  "valid_date y m d = (1 \<le> y \<and> y \<le> 9999 \<and> 1 \<le> m \<and> m \<le> 12 \<and> 1 \<le> d \<and> d \<le> days_in_month y m)"

definition fits_c_int :: "int \<Rightarrow> bool" where
  "fits_c_int i = (- 2147483648 \<le> i \<and> i \<le> 2147483647)"

text \<open>The constructor \<open>datetime(year, month, day, hour, minute, second)\<close>: an argument
  that does not fit a C int is an OverflowError, a field out of range a ValueError.\<close>

definition datetime_new :: "int \<Rightarrow> int \<Rightarrow> int \<Rightarrow> int \<Rightarrow> int \<Rightarrow> int \<Rightarrow> py_error + datetime" where
  "datetime_new y m d h mi s =
     (if \<not> list_all fits_c_int [y, m, d, h, mi, s] then Inl OverflowError
      else if valid_date y m d \<and> 0 \<le> h \<and> h \<le> 23 \<and> 0 \<le> mi \<and> mi \<le> 59 \<and> 0 \<le> s \<and> s \<le> 59
      then Inr \<lparr>year = y, month = m, day = d, hour = h, minute = mi, second = s, microsecond = 0\<rparr>
      else Inl ValueError)"

definition valid_datetime :: "datetime \<Rightarrow> bool" where
  "valid_datetime dt =
     (valid_date (year dt) (month dt) (day dt) \<and> 0 \<le> hour dt \<and> hour dt \<le> 23
      \<and> 0 \<le> minute dt \<and> minute dt \<le> 59 \<and> 0 \<le> second dt \<and> second dt \<le> 59
      \<and> 0 \<le> microsecond dt \<and> microsecond dt \<le> 999999)"

section \<open>Formatting\<close>

definition format_rfc822 :: "datetime \<Rightarrow> string" where
  "format_rfc822 dt =
     (let days = [''Mon'', ''Tue'', ''Wed'', ''Thu'', ''Fri'', ''Sat'', ''Sun''];
          months = [''Jan'', ''Feb'', ''Mar'', ''Apr'', ''May'', ''Jun'',
                    ''Jul'', ''Aug'', ''Sep'', ''Oct'', ''Nov'', ''Dec'']
      in days ! nat (weekday dt) @ '', '' @ fmt_0d 2 (day dt) @ '' ''
         @ months ! nat (month dt - 1) @ '' '' @ py_str_int (year dt) @ '' ''
         @ fmt_0d 2 (hour dt) @ '':'' @ fmt_0d 2 (minute dt) @ '':'' @ fmt_0d 2 (second dt)
         @ '' +0000'')"

definition format_itunes_duration :: "int \<Rightarrow> string" where
  "format_itunes_duration seconds =
     (let h = seconds div 3600;
          m = (seconds mod 3600) div 60;
          s = seconds mod 60
      in if h > 0 then fmt_0d 2 h @ '':'' @ fmt_0d 2 m @ '':'' @ fmt_0d 2 s
         else fmt_0d 2 m @ '':'' @ fmt_0d 2 s)"

section \<open>Configuration\<close>

definition PROGRAM_ID :: string where "PROGRAM_ID = ''p8339''"
definition PROGRAM_SLUG :: string where "PROGRAM_SLUG = ''panfletos''"
definition PROGRAM_TITLE :: string where "PROGRAM_TITLE = ''Panfletos''"
definition PROGRAM_AUTHOR :: string where "PROGRAM_AUTHOR = ''Pedro Tadeu''"
definition PROGRAM_DESCRIPTION :: string where
  "PROGRAM_DESCRIPTION =
     ''As palavras-chave deste projeto s'' @ [CHR 0xE3] @ ''o estas: m'' @ [CHR 0xFA]
     @ ''sica-pol'' @ [CHR 0xED] @ ''tica, can'' @ [CHR 0xE7, CHR 0xF5] @ ''es-poder, ''
     @ ''criatividade-resist'' @ [CHR 0xEA] @ ''ncia, cultura-opress'' @ [CHR 0xE3]
     @ ''o, talento-censura, poesia-liberdade, ''
     @ ''arte-causas. Panfletos foi um programa de Ruben de Carvalho na antiga Telefonia ''
     @ ''de Lisboa. Recriado agora por Pedro Tadeu, na Antena 1, trata da rela''
     @ [CHR 0xE7, CHR 0xE3] @ ''o '' @ [CHR 0xED] @ ''ntima, ''
     @ ''ao longo dos tempos, da arte musical com a vida e a luta dos povos. ''
     @ ''Diariamente: uma can'' @ [CHR 0xE7, CHR 0xE3] @ ''o na Hist'' @ [CHR 0xF3] @ ''ria.''"
definition PROGRAM_IMAGE :: string where
  "PROGRAM_IMAGE = ''https://cdn-images.rtp.pt/EPG/radio/imagens/7290_10886_10223.jpg''"
definition PROGRAM_URL :: string where
  "PROGRAM_URL = ''https://www.rtp.pt/play/'' @ PROGRAM_ID @ ''/'' @ PROGRAM_SLUG"
definition PROGRAM_CATEGORY :: string where "PROGRAM_CATEGORY = ''Music''"
definition PROGRAM_LANGUAGE :: string where "PROGRAM_LANGUAGE = ''pt''"
definition CHANNEL :: string where "CHANNEL = ''Antena1''"
definition BASE_URL :: string where "BASE_URL = ''https://www.rtp.pt''"
definition FEED_SELF_URL :: string where
  "FEED_SELF_URL = ''https://javiercubre.github.io/panfletos-rss/panfletos.xml''"

section \<open>Episode records and \<open>generate_rss\<close>\<close>

text \<open>An episode is a dict with the keys \<open>title\<close>, \<open>date\<close>, \<open>duration\<close>, \<open>url\<close> and
  \<open>episode_id\<close>; \<open>audio_url\<close> is read with \<open>ep.get\<close>, so a missing key and the value
  \<open>None\<close> are both \<open>None\<close> here.\<close>

record episode =
  title :: string
  date :: datetime
  duration :: int
  url :: string
  episode_id :: string
  audio_url :: "string option"

text \<open>The lines appended before the loop; \<open>now\<close> is the reading of the clock taken by
  \<open>datetime.now()\<close> at the start of the call.\<close>

definition channel_lines :: "datetime \<Rightarrow> string list" where
  \<open>channel_lines now =
     [''<?xml version="1.0" encoding="UTF-8"?>'',
      ''<rss version="2.0"'',
      ''  xmlns:itunes="http://www.itunes.com/dtds/podcast-1.0.dtd"'',
      ''  xmlns:atom="http://www.w3.org/2005/Atom">'',
      ''  <channel>'',
      ''    <title>'' @ xml_escape PROGRAM_TITLE @ ''</title>'',
      ''    <link>'' @ PROGRAM_URL @ ''</link>'',
      ''    <description>'' @ xml_escape PROGRAM_DESCRIPTION @ ''</description>'',
      ''    <language>'' @ PROGRAM_LANGUAGE @ ''</language>'',
      ''    <copyright>'' @ [CHR 0xA9] @ '' RTP - R'' @ [CHR 0xE1] @ ''dio e Televis''
        @ [CHR 0xE3] @ ''o de Portugal</copyright>'',
      ''    <lastBuildDate>'' @ format_rfc822 now @ ''</lastBuildDate>'',
      ''    <generator>Panfletos RSS Generator</generator>'',
      ''    <atom:link href="'' @ FEED_SELF_URL @ ''" rel="self" type="application/rss+xml"/>'',
      ''    <itunes:author>'' @ xml_escape PROGRAM_AUTHOR @ ''</itunes:author>'',
      ''    <itunes:summary>'' @ xml_escape PROGRAM_DESCRIPTION @ ''</itunes:summary>'',
      ''    <itunes:type>episodic</itunes:type>'',
      ''    <itunes:explicit>false</itunes:explicit>'',
      ''    <itunes:owner>'',
      ''      <itunes:name>'' @ xml_escape PROGRAM_AUTHOR @ ''</itunes:name>'',
      ''    </itunes:owner>'',
      ''    <itunes:category text="'' @ PROGRAM_CATEGORY @ ''"/>'',
      ''    <image>'',
      ''      <url>'' @ PROGRAM_IMAGE @ ''</url>'',
      ''      <title>'' @ xml_escape PROGRAM_TITLE @ ''</title>'',
      ''      <link>'' @ PROGRAM_URL @ ''</link>'',
      ''    </image>'',
      ''    <itunes:image href="'' @ PROGRAM_IMAGE @ ''"/>'']\<close>

text \<open>The lines one pass of the loop appends. \<open>if audio_url:\<close> is false for \<open>None\<close> and
  for the empty string.\<close>

definition item_lines :: "episode \<Rightarrow> string list" where
  \<open>item_lines ep =
     [''    <item>'',
      ''      <title>'' @ xml_escape (title ep) @ ''</title>'',
      ''      <link>'' @ url ep @ ''</link>'',
      ''      <guid isPermaLink="false">rtp-panfletos-e'' @ episode_id ep @ ''</guid>'',
      ''      <pubDate>'' @ format_rfc822 (date ep) @ ''</pubDate>'',
      ''      <description>'' @ xml_escape (title ep) @ '' - '' @ xml_escape PROGRAM_TITLE
        @ '' com '' @ xml_escape PROGRAM_AUTHOR @ '' na '' @ CHANNEL @ ''.</description>'']
     @ (case audio_url ep of
          None \<Rightarrow> []
        | Some u \<Rightarrow>
            if u = [] then []
            else [''      <enclosure url="'' @ xml_escape u @ ''" length="0" type="audio/mpeg"/>''])
     @ (if duration ep > 0
        then [''      <itunes:duration>'' @ format_itunes_duration (duration ep)
              @ ''</itunes:duration>'']
        else [])
     @ [''      <itunes:author>'' @ xml_escape PROGRAM_AUTHOR @ ''</itunes:author>'',
        ''      <itunes:summary>'' @ xml_escape (title ep) @ '' - Panfletos: m'' @ [CHR 0xFA]
          @ ''sica-pol'' @ [CHR 0xED] @ ''tica, can'' @ [CHR 0xE7, CHR 0xF5]
          @ ''es-poder, criatividade-resist'' @ [CHR 0xEA] @ ''ncia.</itunes:summary>'',
        ''    </item>'']\<close>

text \<open>The loop \<open>for ep in episodes\<close>, on the list of lines built so far.\<close>

fun append_items :: "string list \<Rightarrow> episode list \<Rightarrow> string list" where
  "append_items lines [] = lines"
| "append_items lines (ep # eps) = append_items (lines @ item_lines ep) eps"

definition rss_lines :: "datetime \<Rightarrow> episode list \<Rightarrow> string list" where
  "rss_lines now episodes =
     append_items (channel_lines now) episodes @ [''  </channel>'', ''</rss>'']"

definition generate_rss :: "datetime \<Rightarrow> episode list \<Rightarrow> string" where
  "generate_rss now episodes = join_nl (rss_lines now episodes)"

text \<open>The episode list of \<open>generate_feed_from_hardcoded_data\<close>.\<close>

definition noon :: "int \<Rightarrow> int \<Rightarrow> int \<Rightarrow> datetime" where
  "noon y m d = \<lparr>year = y, month = m, day = d, hour = 12, minute = 0, second = 0, microsecond = 0\<rparr>"

definition hardcoded :: "string \<Rightarrow> datetime \<Rightarrow> int \<Rightarrow> string \<Rightarrow> episode" where
  "hardcoded t d secs eid =
     \<lparr>title = t, date = d, duration = secs,
      url = BASE_URL @ ''/play/'' @ PROGRAM_ID @ ''/e'' @ eid @ ''/'' @ PROGRAM_SLUG,
      episode_id = eid, audio_url = None\<rparr>"

definition hardcoded_episodes :: "episode list" where
  \<open>hardcoded_episodes =
     [hardcoded ''Cara de Espelho e "A Seita"'' (noon 2026 2 11) 420 ''908229'',
      hardcoded ''Bad Bunny e "DtMF"'' (noon 2026 2 10) 420 ''907966'',
      hardcoded ''Moonspell e "Desastre"'' (noon 2026 2 9) 420 ''907751'',
      hardcoded ''Semana de 02 a 06 de Fevereiro de 2026'' (noon 2026 2 7) 1620 ''907740'',
      hardcoded ''Carlos Paredes e "Verdes Anos"'' (noon 2026 2 6) 420 ''907254'',
      hardcoded ''Verdi e o coro dos escravos hebreus'' (noon 2026 2 5) 420 ''907010'',
      hardcoded ''Billy Bragg e "City of Heroes"'' (noon 2026 2 4) 420 ''906746'',
      hardcoded ''Nicki Minaj e "Black Barbies"'' (noon 2026 2 3) 420 ''906461'',
      hardcoded ''Bruce Springsteen e "Streets of Minneapolis"'' (noon 2026 2 2) 420 ''906203'',
      hardcoded ''Semana de 26 a 30 de Janeiro de 2026'' (noon 2026 1 31) 1920 ''905765'',
      hardcoded (''Dino d'' @ [CHR 0x27] @ ''Santiago e "Utopia"'') (noon 2026 1 30) 420 ''905712'',
      hardcoded (''Pedro Abrunhosa e "Oxal'' @ [CHR 0xE1] @ '' o meu vestido ainda se lembre de mim"'')
        (noon 2026 1 29) 420 ''905426'']\<close>

definition generate_feed_from_hardcoded_data :: "datetime \<Rightarrow> string" where
  "generate_feed_from_hardcoded_data now = generate_rss now hardcoded_episodes"

text \<open>A reading of the clock, for the evaluations at concrete inputs.\<close>

definition sample_now :: datetime where
  "sample_now =
     \<lparr>year = 2026, month = 11, day = 4, hour = 9, minute = 30, second = 15,
      microsecond = 250000\<rparr>"

text \<open>A necessary condition of XML well-formedness (XML 1.0, production Reference): in a
  document without comments and CDATA sections, as generated here, every ampersand
  starts a reference, that is a non-empty name (or \<open>#\<close> and a number) closed by a
  semicolon.\<close>

definition name_char :: "char \<Rightarrow> bool" where
  "name_char c =
     (c \<in> set ''abcdefghijklmnopqrstuvwxyzABCDEFGHIJKLMNOPQRSTUVWXYZ0123456789#_:.-'')"

definition starts_reference :: "string \<Rightarrow> bool" where
  "starts_reference cs =
     (takeWhile name_char cs \<noteq> []
      \<and> (case dropWhile name_char cs of [] \<Rightarrow> False | d # ds \<Rightarrow> d = CHR '';''))"

fun ampersands_ok :: "string \<Rightarrow> bool" where
  "ampersands_ok [] = True"
| "ampersands_ok (c # cs) =
     (if c = CHR ''&'' then starts_reference cs \<and> ampersands_ok cs else ampersands_ok cs)"

text \<open>A record whose URL carries a query string of two parameters.\<close>

definition query_url_episode :: episode where
  "query_url_episode =
     \<lparr>title = ''T'', date = noon 2026 2 11, duration = 420,
      url = BASE_URL @ ''/play/p8339/e1/panfletos?a=1&b=2'',
      episode_id = ''1'', audio_url = None\<rparr>"

section \<open>\<open>int()\<close> on a string\<close>

text \<open>\<open>int(s)\<close>: whitespace around the number is dropped; then an optional sign and decimal
  digits, where single underscores may stand between digits. Anything else is a
  ValueError.\<close>

fun no_double_underscore :: "string \<Rightarrow> bool" where
  "no_double_underscore (a # b # cs) =
     (if a = CHR ''_'' \<and> b = CHR ''_'' then False else no_double_underscore (b # cs))"
| "no_double_underscore cs = True"

definition int_body_ok :: "string \<Rightarrow> bool" where
  "int_body_ok b =
     (b \<noteq> [] \<and> isdigit (hd b) \<and> isdigit (last b)
      \<and> list_all (\<lambda>c. isdigit c \<or> c = CHR ''_'') b \<and> no_double_underscore b)"

definition py_int :: "string \<Rightarrow> py_error + int" where
  "py_int s =
     (let t = py_strip s;
          neg = (t \<noteq> [] \<and> hd t = CHR ''-'');
          body = (if t \<noteq> [] \<and> (hd t = CHR ''-'' \<or> hd t = CHR ''+'') then tl t else t)
      in if int_body_ok body
         then Inr ((if neg then - 1 else 1) * int (dec_value (filter (\<lambda>c. c \<noteq> CHR ''_'') body)))
         else Inl ValueError)"

section \<open>\<open>parse_pt_date\<close>\<close>

definition PT_MONTHS :: "(string \<times> int) list" where
  "PT_MONTHS =
     [(''jan'', 1), (''fev'', 2), (''mar'', 3), (''abr'', 4), (''mai'', 5), (''jun'', 6),
      (''jul'', 7), (''ago'', 8), (''set'', 9), (''out'', 10), (''nov'', 11), (''dez'', 12)]"

text \<open>\<open>PT_MONTHS.get(key, 1)\<close>.\<close>

definition month_of :: "string \<Rightarrow> int" where
  "month_of key = (case map_of PT_MONTHS key of None \<Rightarrow> 1 | Some m \<Rightarrow> m)"

text \<open>\<open>now\<close> is what \<open>datetime.now()\<close> returns when the last line is reached. The
  conversions run in the order of the source: day, month, year, then the constructor.\<close>

definition parse_pt_date :: "datetime \<Rightarrow> string \<Rightarrow> py_error + datetime" where
  "parse_pt_date now date_str =
     (let cleaned = py_strip (py_replace ''.'' [] (py_strip date_str));
          parts = py_split cleaned
      in if length parts = 3
         then (case py_int (parts ! 0) of
                 Inl e \<Rightarrow> Inl e
               | Inr d \<Rightarrow>
                   (let m = month_of (py_lower (parts ! 1))
                    in case py_int (parts ! 2) of
                         Inl e \<Rightarrow> Inl e
                       | Inr y \<Rightarrow> datetime_new y m d 12 0 0))
         else Inr now)"

section \<open>Regular expressions: \<open>re.search\<close> on the two patterns of the program\<close>

text \<open>
  The two patterns, \<open>(\d+)\s*min\<close> and \<open>/play/p8339/e(\d+)/panfletos\<close>, are sequences of
  literal characters and of greedy repetitions of a character class. \<open>Rep cls lo cap\<close> is
  the class \<open>cls\<close> repeated at least \<open>lo\<close> times, in a capturing group when \<open>cap\<close> holds.
  The matcher is the backtracking one of \<open>re\<close>: a repetition first takes the longest run
  and gives characters back one at a time while the rest of the pattern fails;
  \<open>rx_search\<close> tries the start positions from the left. The result is the list of the
  captured groups.
\<close>

datatype rx_item = Lit char | Rep "char \<Rightarrow> bool" nat bool

fun greedy :: "(string \<Rightarrow> string list option) \<Rightarrow> bool \<Rightarrow> nat \<Rightarrow> string \<Rightarrow> nat \<Rightarrow> string list option" where
  "greedy cont cap lo s 0 =
     (if 0 < lo then None
      else case cont s of
             Some caps \<Rightarrow> Some (if cap then [] # caps else caps)
           | None \<Rightarrow> None)"
| "greedy cont cap lo s (Suc k) =
     (if Suc k < lo then None
      else case cont (drop (Suc k) s) of
             Some caps \<Rightarrow> Some (if cap then take (Suc k) s # caps else caps)
           | None \<Rightarrow> greedy cont cap lo s k)"

primrec rx_match :: "rx_item list \<Rightarrow> string \<Rightarrow> string list option" where
  "rx_match [] s = Some []"
| "rx_match (i # r) s =
     (case i of
        Lit c \<Rightarrow> (case s of [] \<Rightarrow> None | x # xs \<Rightarrow> if x = c then rx_match r xs else None)
      | Rep cls lo cap \<Rightarrow> greedy (rx_match r) cap lo s (length (takeWhile cls s)))"

fun rx_search :: "rx_item list \<Rightarrow> string \<Rightarrow> string list option" where
  "rx_search r [] = rx_match r []"
| "rx_search r (c # cs) =
     (case rx_match r (c # cs) of Some caps \<Rightarrow> Some caps | None \<Rightarrow> rx_search r cs)"

section \<open>\<open>parse_duration\<close>\<close>

text \<open>The pattern \<open>(\d+)\s*min\<close>.\<close>

definition duration_rx :: "rx_item list" where
  "duration_rx = [Rep isdigit 1 True, Rep isspace 0 False] @ map Lit ''min''"

definition parse_duration :: "string \<Rightarrow> py_error + int" where
  "parse_duration dur_str =
     (let s = py_lower (py_strip dur_str)
      in case rx_search duration_rx s of
           Some groups \<Rightarrow> (case py_int (groups ! 0) of Inl e \<Rightarrow> Inl e | Inr d \<Rightarrow> Inr (d * 60))
         | None \<Rightarrow> Inr 0)"


section \<open>\<open>scrape_episodes_from_html\<close>\<close>

text \<open>
  The HTML parser is a library; the model starts from what it hands to the loop: the
  \<open>a\<close> elements of the page in document order, each with its \<open>href\<close> attribute (if any)
  and its text nodes. \<open>stripped_strings\<close> are the text nodes stripped, the empty ones
  left out, and \<open>get_text(strip=True)\<close> is their concatenation.
\<close>

record anchor =
  href :: "string option"
  strings :: "string list"

definition stripped_strings :: "anchor \<Rightarrow> string list" where
  "stripped_strings link = filter (\<lambda>t. t \<noteq> []) (map py_strip (strings link))"

text \<open>The pattern \<open>/play/p8339/e(\d+)/panfletos\<close>.\<close>

definition ep_pattern :: "rx_item list" where
  "ep_pattern =
     map Lit (''/play/'' @ PROGRAM_ID @ ''/e'') @ [Rep isdigit 1 True]
     @ map Lit (''/'' @ PROGRAM_SLUG)"

text \<open>The body of the loop for a link whose \<open>href\<close> matched, with the captured id. One
  reading of the clock stands for every \<open>datetime.now()\<close> of a run.\<close>

definition episode_of_link :: "datetime \<Rightarrow> anchor \<Rightarrow> string \<Rightarrow> string \<Rightarrow> py_error + episode" where
  "episode_of_link now link h eid =
     (let title_text = concat (stripped_strings link);
          parts = map py_strip (stripped_strings link);
          title_str = (if parts \<noteq> [] then parts ! 0 else title_text);
          date_str = (if length parts > 1 then parts ! 1 else []);
          duration_str = (if length parts > 2 then parts ! 2 else [])
      in case (if date_str \<noteq> [] then parse_pt_date now date_str else Inr now) of
           Inl e \<Rightarrow> Inl e
         | Inr ep_date \<Rightarrow>
             (case (if duration_str \<noteq> [] then parse_duration duration_str else Inr 0) of
                Inl e \<Rightarrow> Inl e
              | Inr duration_secs \<Rightarrow>
                  Inr \<lparr>title = title_str, date = ep_date, duration = duration_secs,
                       url = BASE_URL @ h, episode_id = eid, audio_url = None\<rparr>))"

text \<open>The loop over \<open>soup.find_all("a", href=ep_pattern)\<close>: the links without an \<open>href\<close>
  or whose \<open>href\<close> the pattern does not match are passed over; an exception of a parser
  leaves the loop.\<close>

fun scrape_loop :: "datetime \<Rightarrow> anchor list \<Rightarrow> episode list \<Rightarrow> py_error + episode list" where
  "scrape_loop now [] episodes = Inr episodes"
| "scrape_loop now (link # links) episodes =
     (case href link of
        None \<Rightarrow> scrape_loop now links episodes
      | Some h \<Rightarrow>
          (case rx_search ep_pattern h of
             None \<Rightarrow> scrape_loop now links episodes
           | Some groups \<Rightarrow>
               (case episode_of_link now link h (groups ! 0) of
                  Inl e \<Rightarrow> Inl e
                | Inr ep \<Rightarrow> scrape_loop now links (episodes @ [ep]))))"

definition scrape_episodes_from_html :: "datetime \<Rightarrow> anchor list \<Rightarrow> py_error + episode list" where
  "scrape_episodes_from_html now links = scrape_loop now links []"

text \<open>The id the pattern captures in the \<open>href\<close> of a link, if the link is one the loop
  takes.\<close>

definition link_id :: "anchor \<Rightarrow> string option" where
  "link_id link =
     (case href link of
        None \<Rightarrow> None
      | Some h \<Rightarrow> (case rx_search ep_pattern h of None \<Rightarrow> None | Some groups \<Rightarrow> Some (groups ! 0)))"

text \<open>A page that links the same episode twice, from its picture and from its title.\<close>

definition duplicate_links :: "anchor list" where
  "duplicate_links =
     [\<lparr>href = Some ''/play/p8339/e908229/panfletos'', strings = []\<rparr>,
      \<lparr>href = Some ''/play/p8339/e908229/panfletos'',
       strings = [''Cara de Espelho'', ''11 fev. 2026'', ''7min'']\<rparr>]"

section \<open>Properties of the renderer\<close>

subsection \<open>Escaping\<close>

lemma py_replace_char:
  "py_replace [c] new s = concat (map (\<lambda>x. if x = c then new else [x]) s)"
  by (induction s) auto

lemma xml_escape_Nil: "xml_escape [] = []"
  by (simp add: xml_escape_def)

lemma xml_escape_Cons: "xml_escape (c # s) = escape_char_spec c @ xml_escape s"
  by (simp add: xml_escape_def py_replace_char escape_char_spec_def)

text \<open>
  C5. For every string, \<open>xml_escape\<close> (five sequential replacements, the ampersand
  first) equals the character-by-character escaping: no character is escaped twice and
  the ampersands of the later substitutions are not escaped again; and
  \<open>xml_escape("A & B < C") = "A &amp; B &lt; C"\<close>.
\<close>

theorem xml_escape_charwise:
  "xml_escape s = concat (map escape_char_spec s)
   \<and> xml_escape ''A & B < C'' = ''A &amp; B &lt; C''"
proof
  show "xml_escape s = concat (map escape_char_spec s)"
    by (induction s) (simp_all add: xml_escape_Nil xml_escape_Cons)
  show "xml_escape ''A & B < C'' = ''A &amp; B &lt; C''"
    by (simp add: xml_escape_Nil xml_escape_Cons escape_char_spec_def)
qed

subsection \<open>The lines of a document and the enclosure\<close>

lemma append_items_eq: "append_items lines eps = lines @ concat (map item_lines eps)"
  by (induction eps arbitrary: lines) simp_all

lemma rss_lines_struct:
  "rss_lines now eps = channel_lines now @ concat (map item_lines eps) @ [''  </channel>'', ''</rss>'']"
  by (simp add: rss_lines_def append_items_eq)

lemma filter_concat_map: "filter P (concat (map f xs)) = concat (map (\<lambda>x. filter P (f x)) xs)"
  by (induction xs) simp_all

lemma concat_map_single: "concat (map (\<lambda>x. [g x]) xs) = map g xs"
  by (induction xs) simp_all

lemma item_enclosure:
  \<open>filter (prefix ''      <enclosure '') (item_lines ep) =
     (case audio_url ep of
        None \<Rightarrow> []
      | Some u \<Rightarrow> if u = [] then []
                  else [''      <enclosure url="'' @ xml_escape u @ ''" length="0" type="audio/mpeg"/>''])\<close>
  by (simp add: item_lines_def split: option.split)



subsection \<open>Decimal text and the duration format\<close>



















subsection \<open>Items and their identifiers\<close>

lemma channel_no_item: "filter (\<lambda>l. l = ''    <item>'') (channel_lines now) = []"
  by (simp add: channel_lines_def)

lemma item_one_item: "filter (\<lambda>l. l = ''    <item>'') (item_lines ep) = [''    <item>'']"
  by (simp add: item_lines_def split: option.split)



lemma hardcoded_ids:
  "map episode_id hardcoded_episodes =
     [''908229'', ''907966'', ''907751'', ''907740'', ''907254'', ''907010'',
      ''906746'', ''906461'', ''906203'', ''905765'', ''905712'', ''905426'']"
  by (simp add: hardcoded_episodes_def hardcoded_def)


lemma item_open_lines:
  "filter (\<lambda>l. l = ''    <item>'') (rss_lines now eps) = replicate (length eps) ''    <item>''"
  by (simp add: rss_lines_struct filter_concat_map channel_no_item item_one_item
      concat_map_single map_replicate_const)


subsection \<open>Well-formedness of the document\<close>

lemma ampersands_ok_append: "ampersands_ok (a @ b) \<Longrightarrow> ampersands_ok b"
  by (induction a) (auto split: if_splits)

lemma query_url_link_line:
  "rss_lines now [query_url_episode] ! 29 =
      ''      <link>https://www.rtp.pt/play/p8339/e1/panfletos?a=1&b=2</link>''"
  by (simp add: rss_lines_struct channel_lines_def item_lines_def query_url_episode_def BASE_URL_def)

lemma join_nl_append: "join_nl (xs @ y # ys) = (if xs = [] then [] else join_nl xs @ [CHR 0x0A]) @ join_nl (y # ys)"
  by (induction xs rule: join_nl.induct) auto

lemma bad_line: "\<not> ampersands_ok (''      <link>https://www.rtp.pt/play/p8339/e1/panfletos?a=1&b=2</link>'' @ rest)"
  by (simp add: starts_reference_def name_char_def)

lemma query_url_reachable:
  "scrape_episodes_from_html now
     [\<lparr>href = Some ''/play/p8339/e1/panfletos?a=1&b=2'', strings = [''T'', ''11 fev. 2026'', ''7min'']\<rparr>]
   = Inr [query_url_episode]"
  by code_simp

text \<open>The indices \<open>format_rfc822\<close> reads its two tables at are in range for every date
  the \<open>datetime\<close> constructor accepts.\<close>

lemma format_rfc822_indices:
  "0 \<le> weekday dt \<and> nat (weekday dt) < 7
   \<and> (valid_datetime dt \<longrightarrow> 0 \<le> month dt - 1 \<and> nat (month dt - 1) < 12)"
  by (auto simp: weekday_def valid_datetime_def valid_date_def)

lemma join_nl_Cons: "post \<noteq> [] \<Longrightarrow> join_nl (l # post) = l @ CHR 0x0A # join_nl post"
  by (cases post) simp_all

lemma query_url_length: "length (rss_lines now [query_url_episode]) = 39"
  by (simp add: rss_lines_struct channel_lines_def item_lines_def query_url_episode_def)

text \<open>
  C2. \<open>generate_rss\<close> returns a document for every episode list, but not always a
  well-formed one. A record whose URL has a query string with an ampersand (a legal URL,
  and the record the scraper builds from such an \<open>href\<close>) is rendered with the bare
  ampersand in its \<open><link>\<close> line, which no XML parser accepts. For the empty list the
  document is the channel lines and the two closing lines, with no \<open><item>\<close> line.
\<close>

theorem generate_rss_bare_ampersand:
  "scrape_episodes_from_html now
     [\<lparr>href = Some ''/play/p8339/e1/panfletos?a=1&b=2'', strings = [''T'', ''11 fev. 2026'', ''7min'']\<rparr>]
     = Inr [query_url_episode]
   \<and> rss_lines now [query_url_episode] ! 29 =
      ''      <link>https://www.rtp.pt/play/p8339/e1/panfletos?a=1&b=2</link>''
   \<and> \<not> ampersands_ok (generate_rss now [query_url_episode])
   \<and> rss_lines now [] = channel_lines now @ [''  </channel>'', ''</rss>'']
   \<and> filter (\<lambda>l. l = ''    <item>'') (rss_lines now []) = []"
proof (intro conjI)
  let ?ls = "rss_lines now [query_url_episode]"
  let ?L = "''      <link>https://www.rtp.pt/play/p8339/e1/panfletos?a=1&b=2</link>''"
  show "scrape_episodes_from_html now
     [\<lparr>href = Some ''/play/p8339/e1/panfletos?a=1&b=2'', strings = [''T'', ''11 fev. 2026'', ''7min'']\<rparr>]
     = Inr [query_url_episode]"
    by (rule query_url_reachable)
  show line: "?ls ! 29 = ?L" by (rule query_url_link_line)
  have split: "?ls = take 29 ?ls @ ?L # drop 30 ?ls"
    using id_take_nth_drop [of 29 ?ls] by (simp add: query_url_length line)
  have post: "drop 30 ?ls \<noteq> []" by (simp add: query_url_length)
  have "generate_rss now [query_url_episode] = join_nl (take 29 ?ls @ ?L # drop 30 ?ls)"
    unfolding generate_rss_def using split by simp
  also have "\<dots> = (if take 29 ?ls = [] then [] else join_nl (take 29 ?ls) @ [CHR 0x0A])
                  @ (?L @ CHR 0x0A # join_nl (drop 30 ?ls))"
    by (simp only: join_nl_append join_nl_Cons [OF post])
  finally have doc: "generate_rss now [query_url_episode] =
      (if take 29 ?ls = [] then [] else join_nl (take 29 ?ls) @ [CHR 0x0A])
      @ (?L @ CHR 0x0A # join_nl (drop 30 ?ls))" .
  show "\<not> ampersands_ok (generate_rss now [query_url_episode])"
    unfolding doc using ampersands_ok_append bad_line by blast
  show "rss_lines now [] = channel_lines now @ [''  </channel>'', ''</rss>'']"
    by (simp add: rss_lines_struct)
  show "filter (\<lambda>l. l = ''    <item>'') (rss_lines now []) = []"
    by (simp add: item_open_lines)
qed

subsection \<open>URL fields\<close>

lemma channel_length: "length (channel_lines now) = 27"
  by (simp add: channel_lines_def)

lemma item_link:
  "filter (prefix ''      <link>'') (item_lines ep) = [''      <link>'' @ url ep @ ''</link>'']"
  by (simp add: item_lines_def split: option.split)

lemma program_url: "PROGRAM_URL = ''https://www.rtp.pt/play/p8339/panfletos''"
  by (simp add: PROGRAM_URL_def PROGRAM_ID_def PROGRAM_SLUG_def)

text \<open>
  C10. The URL-valued fields are inserted as they are: the first 27 lines of every
  document are the channel lines, whose \<open><link>\<close>, \<open>atom:link\<close>, image \<open><url>\<close>, image
  \<open><link>\<close> and \<open>itunes:image\<close> lines hold \<open>PROGRAM_URL\<close>, \<open>FEED_SELF_URL\<close> and
  \<open>PROGRAM_IMAGE\<close> unchanged; the \<open><link>\<close> lines after them are, record by record, the
  \<open>url\<close> of the record unchanged. Only the \<open>url\<close> attribute of the enclosure is passed
  through \<open>xml_escape\<close>: with an ampersand in both URLs, the link keeps it and the
  enclosure has \<open>&amp;\<close>.
\<close>

theorem url_fields_inserted_verbatim:
  \<open>take 27 (rss_lines now eps) = channel_lines now
   \<and> channel_lines now ! 6 = ''    <link>'' @ PROGRAM_URL @ ''</link>''
   \<and> channel_lines now ! 12 =
       ''    <atom:link href="'' @ FEED_SELF_URL @ ''" rel="self" type="application/rss+xml"/>''
   \<and> channel_lines now ! 22 = ''      <url>'' @ PROGRAM_IMAGE @ ''</url>''
   \<and> channel_lines now ! 24 = ''      <link>'' @ PROGRAM_URL @ ''</link>''
   \<and> channel_lines now ! 26 = ''    <itunes:image href="'' @ PROGRAM_IMAGE @ ''"/>''
   \<and> channel_lines now ! 6 = ''    <link>https://www.rtp.pt/play/p8339/panfletos</link>''
   \<and> filter (prefix ''      <link>'') (drop 27 (rss_lines now eps)) =
       map (\<lambda>ep. ''      <link>'' @ url ep @ ''</link>'') eps
   \<and> filter (prefix ''      <enclosure '') (item_lines (ep\<lparr>audio_url := Some (c # u)\<rparr>)) =
       [''      <enclosure url="'' @ xml_escape (c # u) @ ''" length="0" type="audio/mpeg"/>'']
   \<and> item_lines \<lparr>title = ''T'', date = d, duration = 0, url = ''http://h/e?a=1&b=2'',
                   episode_id = ''1'', audio_url = Some ''http://h/s?a=1&b=2''\<rparr> ! 2 =
       ''      <link>http://h/e?a=1&b=2</link>''
   \<and> item_lines \<lparr>title = ''T'', date = d, duration = 0, url = ''http://h/e?a=1&b=2'',
                   episode_id = ''1'', audio_url = Some ''http://h/s?a=1&b=2''\<rparr> ! 6 =
       ''      <enclosure url="http://h/s?a=1&amp;b=2" length="0" type="audio/mpeg"/>''\<close>
proof (intro conjI)
  show "take 27 (rss_lines now eps) = channel_lines now"
    by (simp add: rss_lines_struct channel_length)
  show \<open>filter (prefix ''      <link>'') (drop 27 (rss_lines now eps)) =
       map (\<lambda>ep. ''      <link>'' @ url ep @ ''</link>'') eps\<close>
    by (simp add: rss_lines_struct channel_length filter_concat_map item_link concat_map_single)
  show \<open>filter (prefix ''      <enclosure '') (item_lines (ep\<lparr>audio_url := Some (c # u)\<rparr>)) =
       [''      <enclosure url="'' @ xml_escape (c # u) @ ''" length="0" type="audio/mpeg"/>'']\<close>
    by (simp add: item_enclosure)
  show "channel_lines now ! 6 = ''    <link>https://www.rtp.pt/play/p8339/panfletos</link>''"
    by (simp add: channel_lines_def program_url)
qed (simp_all add: channel_lines_def item_lines_def xml_escape_Cons xml_escape_Nil
    escape_char_spec_def)

section \<open>Properties of the parsers and of the scraper\<close>

subsection \<open>The matcher\<close>

lemma greedy_all_fail:
  "(\<And>j. j \<le> k \<Longrightarrow> cont (drop j s) = None) \<Longrightarrow> greedy cont cap lo s k = None"
  by (induction k) simp_all

lemma greedy_only_top:
  assumes "\<And>j. j < k \<Longrightarrow> cont (drop j s) = None"
  shows "greedy cont cap lo s k =
           (if k < lo then None
            else case cont (drop k s) of
                   Some caps \<Rightarrow> Some (if cap then take k s # caps else caps)
                 | None \<Rightarrow> None)"
proof (cases k)
  case 0
  then show ?thesis by (simp split: option.split)
next
  case (Suc n)
  have "greedy cont cap lo s n = None"
    using assms Suc by (intro greedy_all_fail) simp
  then show ?thesis using Suc by (simp split: option.split)
qed

lemma rx_match_lits:
  "rx_match (map Lit w) s = (if prefix w s then Some [] else None)"
proof (induction w arbitrary: s)
  case Nil
  then show ?case by simp
next
  case (Cons c w)
  then show ?case by (cases s) auto
qed

lemma drop_takeWhile_hd:
  assumes "j < length (takeWhile P s)"
  shows "\<exists>c r. drop j s = c # r \<and> P c"
proof -
  from assms have js: "j < length s"
    using length_takeWhile_le [of P s] by simp
  have "P (s ! j)"
    using assms by (metis nth_mem set_takeWhileD takeWhile_nth)
  moreover have "drop j s = s ! j # drop (Suc j) s"
    using js by (simp add: Cons_nth_drop_Suc)
  ultimately show ?thesis by blast
qed

lemma take_takeWhile: "take (length (takeWhile P s)) s = takeWhile P s"
  by (induction s) simp_all

lemma drop_takeWhile: "drop (length (takeWhile P s)) s = dropWhile P s"
  by (induction s) simp_all




text \<open>A repetition followed by a rest that cannot start with a character of the class:
  backtracking never helps, only the longest run can be followed by a match.\<close>

lemma rx_match_rep:
  assumes "\<And>c q. cls c \<Longrightarrow> rx_match r (c # q) = None"
  shows "rx_match (Rep cls lo cap # r) s =
           (if length (takeWhile cls s) < lo then None
            else case rx_match r (dropWhile cls s) of
                   Some caps \<Rightarrow> Some (if cap then takeWhile cls s # caps else caps)
                 | None \<Rightarrow> None)"
proof -
  have fail: "rx_match r (drop j s) = None" if "j < length (takeWhile cls s)" for j
  proof -
    from drop_takeWhile_hd [OF that] obtain c q where "drop j s = c # q" "cls c" by blast
    then show ?thesis using assms by simp
  qed
  have "rx_match (Rep cls lo cap # r) s = greedy (rx_match r) cap lo s (length (takeWhile cls s))"
    by simp
  also have "\<dots> = (if length (takeWhile cls s) < lo then None
            else case rx_match r (drop (length (takeWhile cls s)) s) of
                   Some caps \<Rightarrow> Some (if cap then take (length (takeWhile cls s)) s # caps else caps)
                 | None \<Rightarrow> None)"
    using fail by (rule greedy_only_top)
  finally show ?thesis by (simp only: drop_takeWhile take_takeWhile)
qed

lemma rx_match_lits_other: "c \<noteq> m \<Longrightarrow> rx_match (map Lit (m # w)) (c # q) = None"
  by simp

lemma rx_match_rep_lits:
  assumes "\<And>c. cls c \<Longrightarrow> c \<noteq> m"
  shows "rx_match (Rep cls lo cap # map Lit (m # w)) s =
           (if lo \<le> length (takeWhile cls s) \<and> prefix (m # w) (dropWhile cls s)
            then Some (if cap then [takeWhile cls s] else []) else None)"
proof -
  have "rx_match (map Lit (m # w)) (c # q) = None" if "cls c" for c q
    using assms [OF that] by (rule rx_match_lits_other)
  from rx_match_rep [of cls "map Lit (m # w)", OF this]
  show ?thesis by (simp only: rx_match_lits) (simp add: not_less)
qed




subsection \<open>\<open>int()\<close> on a run of digits\<close>






subsection \<open>\<open>parse_duration\<close>\<close>






lemma rx_search_some:
  "rx_search r s = Some caps \<Longrightarrow> \<exists>pre u. s = pre @ u \<and> rx_match r u = Some caps"
proof (induction s)
  case Nil
  then show ?case by simp
next
  case (Cons c cs)
  show ?case
  proof (cases "rx_match r (c # cs)")
    case None
    with Cons obtain pre u where "cs = pre @ u" "rx_match r u = Some caps" by auto
    then have "c # cs = (c # pre) @ u \<and> rx_match r u = Some caps" by simp
    then show ?thesis by blast
  next
    case (Some a)
    with Cons.prems have "c # cs = [] @ (c # cs) \<and> rx_match r (c # cs) = Some caps" by simp
    then show ?thesis by blast
  qed
qed






subsection \<open>\<open>parse_pt_date\<close>\<close>


lemma space_isspace: "isspace CHR '' ''"
  by (simp add: isspace_def)

lemma split_ws_space: "cur \<noteq> [] \<Longrightarrow> split_ws cur (CHR '' '' # rest) = rev cur # split_ws [] rest"
  by (simp add: space_isspace)

















subsection \<open>\<open>scrape_episodes_from_html\<close>\<close>

lemma rx_match_lits_then:
  "rx_match (map Lit w @ r) s = (if prefix w s then rx_match r (drop (length w) s) else None)"
proof (induction w arbitrary: s)
  case Nil
  then show ?case by simp
next
  case (Cons c w)
  then show ?case by (cases s) auto
qed

lemma isdigit_not_slash: "isdigit c \<Longrightarrow> c \<noteq> CHR ''/''"
  by (auto simp: isdigit_def)

lemma rx_match_ep_pattern:
  "rx_match ep_pattern u =
     (if prefix ''/play/p8339/e'' u
         \<and> takeWhile isdigit (drop 13 u) \<noteq> []
         \<and> prefix ''/panfletos'' (dropWhile isdigit (drop 13 u))
      then Some [takeWhile isdigit (drop 13 u)] else None)"
proof -
  have ep: "ep_pattern = map Lit ''/play/p8339/e'' @ (Rep isdigit 1 True # map Lit (CHR ''/'' # ''panfletos''))"
    by (simp add: ep_pattern_def PROGRAM_ID_def PROGRAM_SLUG_def)
  have len: "length ''/play/p8339/e'' = 13" by simp
  have "rx_match ep_pattern u =
      (if prefix ''/play/p8339/e'' u
       then rx_match (Rep isdigit 1 True # map Lit (CHR ''/'' # ''panfletos'')) (drop 13 u) else None)"
    unfolding ep rx_match_lits_then len ..
  also have "rx_match (Rep isdigit 1 True # map Lit (CHR ''/'' # ''panfletos'')) (drop 13 u) =
      (if 1 \<le> length (takeWhile isdigit (drop 13 u))
          \<and> prefix (CHR ''/'' # ''panfletos'') (dropWhile isdigit (drop 13 u))
       then Some (if True then [takeWhile isdigit (drop 13 u)] else []) else None)"
    using isdigit_not_slash by (rule rx_match_rep_lits)
  finally show ?thesis by (auto simp: Suc_le_eq)
qed

lemma link_id_href:
  assumes "link_id link = Some i"
  shows "i \<noteq> [] \<and> list_all isdigit i
         \<and> (\<exists>h pre post. href link = Some h \<and> h = pre @ ''/play/p8339/e'' @ i @ ''/panfletos'' @ post)"
proof -
  from assms obtain h groups where h: "href link = Some h"
    and g: "rx_search ep_pattern h = Some groups" and i: "i = groups ! 0"
    by (auto simp: link_id_def split: option.splits)
  from rx_search_some [OF g] obtain pre u where u: "h = pre @ u" "rx_match ep_pattern u = Some groups"
    by blast
  let ?r = "drop 13 u"
  from u(2) have p: "prefix ''/play/p8339/e'' u" and ne: "takeWhile isdigit ?r \<noteq> []"
    and q: "prefix ''/panfletos'' (dropWhile isdigit ?r)" and gr: "groups = [takeWhile isdigit ?r]"
    by (auto simp: rx_match_ep_pattern split: if_splits)
  from p obtain r where r: "u = ''/play/p8339/e'' @ r" by (auto simp: prefix_def)
  then have dr: "?r = r" by simp
  from q obtain post where post: "dropWhile isdigit ?r = ''/panfletos'' @ post"
    by (auto simp: prefix_def)
  have "r = takeWhile isdigit r @ dropWhile isdigit r" by simp
  also have "dropWhile isdigit r = ''/panfletos'' @ post" using post dr by simp
  also have "takeWhile isdigit r = i" using i gr dr by simp
  finally have "r = i @ ''/panfletos'' @ post" .
  then have "h = pre @ ''/play/p8339/e'' @ i @ ''/panfletos'' @ post" using u(1) r by simp
  moreover have "list_all isdigit i" using i gr by (auto simp: list_all_iff dest: set_takeWhileD)
  moreover have "i \<noteq> []" using i gr ne by simp
  ultimately show ?thesis using h by blast
qed

lemma episode_of_link_id: "episode_of_link now link h eid = Inr ep \<Longrightarrow> episode_id ep = eid"
  by (auto simp: episode_of_link_def Let_def split: sum.splits if_splits)

lemma scrape_loop_ids:
  "scrape_loop now links acc = Inr eps
   \<Longrightarrow> map episode_id eps = map episode_id acc @ List.map_filter link_id links"
proof (induction links arbitrary: acc)
  case Nil
  then show ?case by (simp add: List.map_filter_simps)
next
  case (Cons l links)
  show ?case
  proof (cases "link_id l")
    case None
    then have "scrape_loop now (l # links) acc = scrape_loop now links acc"
      by (auto simp: link_id_def split: option.splits)
    with Cons show ?thesis using None by (simp add: List.map_filter_simps)
  next
    case (Some i)
    then obtain h groups where h: "href l = Some h" "rx_search ep_pattern h = Some groups"
      "i = groups ! 0"
      by (auto simp: link_id_def split: option.splits)
    with Cons.prems obtain ep where ep: "episode_of_link now l h i = Inr ep"
      and rest: "scrape_loop now links (acc @ [ep]) = Inr eps"
      by (auto split: sum.splits)
    from Cons.IH [OF rest] episode_of_link_id [OF ep] Some
    show ?thesis by (simp add: List.map_filter_simps)
  qed
qed

lemma hardcoded_distinct: "distinct (map episode_id hardcoded_episodes)"
  unfolding hardcoded_ids by simp

text \<open>
  C4 (as amended). The fixed fallback list has pairwise distinct episode ids. The loop of
  \<open>scrape_episodes_from_html\<close> appends one record per link whose \<open>href\<close> matches, in document
  order, with the digits captured in that \<open>href\<close> as its id, and removes no duplicate: the
  ids of the result are pairwise distinct exactly when the matching links carry pairwise
  distinct ids.
\<close>

theorem scraped_ids_follow_links:
  "distinct (map episode_id hardcoded_episodes)
   \<and> (scrape_episodes_from_html now links = Inr eps
        \<longrightarrow> map episode_id eps = List.map_filter link_id links
            \<and> distinct (map episode_id eps) = distinct (List.map_filter link_id links))
   \<and> (link_id link = Some i
        \<longrightarrow> i \<noteq> [] \<and> list_all isdigit i
            \<and> (\<exists>h pre post. href link = Some h
                  \<and> h = pre @ ''/play/p8339/e'' @ i @ ''/panfletos'' @ post))"
proof (intro conjI impI)
  show "distinct (map episode_id hardcoded_episodes)" by (rule hardcoded_distinct)
next
  assume "scrape_episodes_from_html now links = Inr eps"
  then have ids: "map episode_id eps = List.map_filter link_id links"
    using scrape_loop_ids [of now links "[]" eps] by (simp add: scrape_episodes_from_html_def)
  then show "map episode_id eps = List.map_filter link_id links" .
  from ids show "distinct (map episode_id eps) = distinct (List.map_filter link_id links)" by simp
next
  assume l: "link_id link = Some i"
  from link_id_href [OF l] show "i \<noteq> []" "list_all isdigit i"
    "\<exists>h pre post. href link = Some h \<and> h = pre @ ''/play/p8339/e'' @ i @ ''/panfletos'' @ post"
    by blast+
qed

theorem scraped_ids_follow_links_witness:
  "scrape_episodes_from_html sample_now
     [\<lparr>href = Some ''/play/p8339/e908229/panfletos'', strings = [''A'', ''11 fev. 2026'', ''7min'']\<rparr>,
      \<lparr>href = Some ''/about'', strings = [''About'']\<rparr>,
      \<lparr>href = Some ''/play/p8339/e907966/panfletos'', strings = [''B'', ''10 fev. 2026'', ''7min'']\<rparr>] =
     Inr [\<lparr>title = ''A'', date = noon 2026 2 11, duration = 420,
           url = ''https://www.rtp.pt/play/p8339/e908229/panfletos'', episode_id = ''908229'',
           audio_url = None\<rparr>,
          \<lparr>title = ''B'', date = noon 2026 2 10, duration = 420,
           url = ''https://www.rtp.pt/play/p8339/e907966/panfletos'', episode_id = ''907966'',
           audio_url = None\<rparr>]
   \<and> List.map_filter link_id
       [\<lparr>href = Some ''/play/p8339/e908229/panfletos'', strings = [''A'', ''11 fev. 2026'', ''7min'']\<rparr>,
        \<lparr>href = Some ''/about'', strings = [''About'']\<rparr>,
        \<lparr>href = Some ''/play/p8339/e907966/panfletos'', strings = [''B'', ''10 fev. 2026'', ''7min'']\<rparr>] =
       [''908229'', ''907966'']
   \<and> link_id \<lparr>href = Some ''/play/p8339/e908229/panfletos'', strings = []\<rparr> = Some ''908229''
   \<and> list_all isdigit ''908229''"
proof -
  let ?ls = "[\<lparr>href = Some ''/play/p8339/e908229/panfletos'', strings = [''A'', ''11 fev. 2026'', ''7min'']\<rparr>,
      \<lparr>href = Some ''/about'', strings = [''About'']\<rparr>,
      \<lparr>href = Some ''/play/p8339/e907966/panfletos'', strings = [''B'', ''10 fev. 2026'', ''7min'']\<rparr>]"
  let ?eps = "[\<lparr>title = ''A'', date = noon 2026 2 11, duration = 420,
           url = ''https://www.rtp.pt/play/p8339/e908229/panfletos'', episode_id = ''908229'',
           audio_url = None\<rparr>,
          \<lparr>title = ''B'', date = noon 2026 2 10, duration = 420,
           url = ''https://www.rtp.pt/play/p8339/e907966/panfletos'', episode_id = ''907966'',
           audio_url = None\<rparr>]"
  have s: "scrape_episodes_from_html sample_now ?ls = Inr ?eps" by code_simp
  have l: "link_id \<lparr>href = Some ''/play/p8339/e908229/panfletos'', strings = []\<rparr> = Some ''908229''"
    by code_simp
  from scraped_ids_follow_links [where now = sample_now and links = ?ls and eps = ?eps
      and link = "\<lparr>href = Some ''/play/p8339/e908229/panfletos'', strings = []\<rparr>" and i = "''908229''"]
  have "List.map_filter link_id ?ls = map episode_id ?eps" "list_all isdigit ''908229''"
    using s l by simp_all
  then show ?thesis using s l by simp
qed

theorem scrape_duplicate_ids_counterexample:
  "scrape_episodes_from_html sample_now duplicate_links =
     Inr [\<lparr>title = [], date = sample_now, duration = 0,
           url = ''https://www.rtp.pt/play/p8339/e908229/panfletos'', episode_id = ''908229'',
           audio_url = None\<rparr>,
          \<lparr>title = ''Cara de Espelho'', date = noon 2026 2 11, duration = 420,
           url = ''https://www.rtp.pt/play/p8339/e908229/panfletos'', episode_id = ''908229'',
           audio_url = None\<rparr>]
   \<and> \<not> distinct (map episode_id
         [\<lparr>title = [], date = sample_now, duration = 0,
           url = ''https://www.rtp.pt/play/p8339/e908229/panfletos'', episode_id = ''908229'',
           audio_url = None\<rparr>,
          \<lparr>title = ''Cara de Espelho'', date = noon 2026 2 11, duration = 420,
           url = ''https://www.rtp.pt/play/p8339/e908229/panfletos'', episode_id = ''908229'',
           audio_url = None\<rparr>])"
proof
  show "scrape_episodes_from_html sample_now duplicate_links =
     Inr [\<lparr>title = [], date = sample_now, duration = 0,
           url = ''https://www.rtp.pt/play/p8339/e908229/panfletos'', episode_id = ''908229'',
           audio_url = None\<rparr>,
          \<lparr>title = ''Cara de Espelho'', date = noon 2026 2 11, duration = 420,
           url = ''https://www.rtp.pt/play/p8339/e908229/panfletos'', episode_id = ''908229'',
           audio_url = None\<rparr>]"
    by code_simp
qed simp

end
